theory Spec2Isabelle
  imports Complex_Main "HOL-Library.Multiset"
begin

section \<open>JavaScript numbers\<close>

text \<open>
  The engine computes with JavaScript numbers. They are modelled as the reals, extended by
  the one special value the engine can produce from well-typed input, \<open>NaN\<close>: arithmetic
  on \<open>undefined\<close> yields it, every arithmetic operation propagates it and every comparison
  with it is false. Rounding and overflow of the 64-bit format are not modelled.
\<close>

datatype jsnum = Num real | NaN

instantiation jsnum :: "{plus, minus, times, inverse, ord}"
begin

fun plus_jsnum :: "jsnum \<Rightarrow> jsnum \<Rightarrow> jsnum" where
  "Num a + Num b = Num (a + b)"
| "Num a + NaN = NaN"
| "NaN + b = NaN"

fun minus_jsnum :: "jsnum \<Rightarrow> jsnum \<Rightarrow> jsnum" where
  "Num a - Num b = Num (a - b)"
| "Num a - NaN = NaN"
| "NaN - b = NaN"

fun times_jsnum :: "jsnum \<Rightarrow> jsnum \<Rightarrow> jsnum" where
  "Num a * Num b = Num (a * b)"
| "Num a * NaN = NaN"
| "NaN * b = NaN"

fun inverse_jsnum :: "jsnum \<Rightarrow> jsnum" where
  "inverse_jsnum (Num a) = Num (inverse a)"
| "inverse_jsnum NaN = NaN"

text \<open>The engine divides by the non-zero constants 2, 5, 10, 180 and 1000 only.\<close>

fun divide_jsnum :: "jsnum \<Rightarrow> jsnum \<Rightarrow> jsnum" where
  "divide_jsnum (Num a) (Num b) = Num (a / b)"
| "divide_jsnum (Num a) NaN = NaN"
| "divide_jsnum NaN b = NaN"

fun less_eq_jsnum :: "jsnum \<Rightarrow> jsnum \<Rightarrow> bool" where
  "Num a \<le> Num b = (a \<le> b)"
| "Num a \<le> NaN = False"
| "NaN \<le> b = False"

fun less_jsnum :: "jsnum \<Rightarrow> jsnum \<Rightarrow> bool" where
  "Num a < Num b = (a < b)"
| "Num a < NaN = False"
| "NaN < b = False"

instance ..

end

fun Math_min :: "jsnum \<Rightarrow> jsnum \<Rightarrow> jsnum" where
  "Math_min (Num a) (Num b) = Num (min a b)"
| "Math_min (Num a) NaN = NaN"
| "Math_min NaN b = NaN"

fun Math_max :: "jsnum \<Rightarrow> jsnum \<Rightarrow> jsnum" where
  "Math_max (Num a) (Num b) = Num (max a b)"
| "Math_max (Num a) NaN = NaN"
| "Math_max NaN b = NaN"

fun Math_floor :: "jsnum \<Rightarrow> jsnum" where
  "Math_floor (Num a) = Num (of_int \<lfloor>a\<rfloor>)"
| "Math_floor NaN = NaN"

fun Math_sin :: "jsnum \<Rightarrow> jsnum" where
  "Math_sin (Num a) = Num (sin a)"
| "Math_sin NaN = NaN"

fun Math_cos :: "jsnum \<Rightarrow> jsnum" where
  "Math_cos (Num a) = Num (cos a)"
| "Math_cos NaN = NaN"

fun Math_sqrt :: "jsnum \<Rightarrow> jsnum" where
  "Math_sqrt (Num a) = (if a < 0 then NaN else Num (sqrt a))"
| "Math_sqrt NaN = NaN"

definition atan2 :: "real \<Rightarrow> real \<Rightarrow> real" where
  "atan2 y x =
     (if 0 < x then arctan (y / x)
      else if x < 0 then (if 0 \<le> y then arctan (y / x) + pi else arctan (y / x) - pi)
      else if 0 < y then pi / 2
      else if y < 0 then - pi / 2
      else 0)"

fun Math_atan2 :: "jsnum \<Rightarrow> jsnum \<Rightarrow> jsnum" where
  "Math_atan2 (Num y) (Num x) = Num (atan2 y x)"
| "Math_atan2 (Num y) NaN = NaN"
| "Math_atan2 NaN x = NaN"

definition Math_PI :: jsnum where
  "Math_PI = Num pi"

section \<open>Data model\<close>

record ScheduleItem =
  id_field :: string
  name :: string
  type :: string
  priority :: real
  dwellTime :: real
  targetArrival :: "string option"
  notes_field :: "string option"

record Metrics =
  totalDistance :: jsnum
  totalTime :: jsnum
  timeSaved :: jsnum
  costSaved :: jsnum
  droppedPOIs :: "ScheduleItem list"

record OptimizationResult =
  originalRoute :: "ScheduleItem list"
  optimizedRoute :: "ScheduleItem list"
  userPlan :: "ScheduleItem list"
  alternativePlan :: "ScheduleItem list option"
  metrics :: Metrics

record RouteFactors =
  distance :: jsnum
  walkingDistance :: jsnum
  trafficLights :: jsnum
  expediteRatio :: jsnum
  slowRatio :: jsnum
  congestionRatio :: jsnum
  unknownRatio :: jsnum
  duration :: jsnum
  dailySales :: jsnum
  rating :: jsnum
  cost :: jsnum

section \<open>Geo distance estimator\<close>

text \<open>
  \<open>mockCoordinates\<close> is an object literal, and \<open>mockCoordinates[point]\<close> is a property
  read on it: it finds the ten own properties and, for every other key, whatever the
  prototype chain holds. An object literal inherits from \<open>Object.prototype\<close>, whose
  members (functions, and the prototype itself under \<open>__proto__\<close>) are truthy values
  with no \<open>lat\<close> or \<open>lng\<close>.
\<close>

datatype jsobject = Coordinate real real | PrototypeMember

fun lat :: "jsobject \<Rightarrow> jsnum" where
  "lat (Coordinate la lo) = Num la"
| "lat PrototypeMember = NaN"

fun lng :: "jsobject \<Rightarrow> jsnum" where
  "lng (Coordinate la lo) = Num lo"
| "lng PrototypeMember = NaN"

definition ownCoordinates :: "(string \<times> jsobject) list" where
  "ownCoordinates =
    [(''Home'', Coordinate 12.9716 77.5946),
     (''Office'', Coordinate 12.9352 77.6245),
     (''College'', Coordinate 12.9279 77.6271),
     (''City Mall'', Coordinate 12.9698 77.6469),
     (''Local Temple'', Coordinate 12.9634 77.5855),
     (''Hospital'', Coordinate 12.9591 77.6402),
     (''Restaurant'', Coordinate 12.9667 77.6102),
     (''Bank'', Coordinate 12.9548 77.6321),
     (''Gym'', Coordinate 12.9423 77.6156),
     (''Park'', Coordinate 12.9512 77.5982)]"

definition objectPrototypeKeys :: "string list" where
  "objectPrototypeKeys =
    [''constructor'', ''__proto__'', ''hasOwnProperty'', ''isPrototypeOf'',
     ''propertyIsEnumerable'', ''toLocaleString'', ''toString'', ''valueOf'',
     ''__defineGetter__'', ''__defineSetter__'', ''__lookupGetter__'', ''__lookupSetter__'']"

text \<open>The property read; \<open>None\<close> is \<open>undefined\<close>.\<close>

definition mockCoordinates :: "string \<Rightarrow> jsobject option" where
  "mockCoordinates key =
     (case map_of ownCoordinates key of
        Some c \<Rightarrow> Some c
      | None \<Rightarrow> if key \<in> set objectPrototypeKeys then Some PrototypeMember else None)"

text \<open>\<open>v || d\<close> on a property read: an object is truthy, \<open>undefined\<close> is not.\<close>

fun orElse :: "jsobject option \<Rightarrow> jsobject \<Rightarrow> jsobject" where
  "orElse (Some v) d = v"
| "orElse None d = d"

definition calculateDistance :: "string \<Rightarrow> string \<Rightarrow> jsnum" where
  "calculateDistance point1 point2 =
     (let coord1 = orElse (mockCoordinates point1) (Coordinate 12.9716 77.5946);
          coord2 = orElse (mockCoordinates point2) (Coordinate 12.9716 77.5946);
          R = Num 6371;
          dLat = ((lat coord2 - lat coord1) * Math_PI) / Num 180;
          dLng = ((lng coord2 - lng coord1) * Math_PI) / Num 180;
          a = Math_sin (dLat / Num 2) * Math_sin (dLat / Num 2) +
              Math_cos ((lat coord1 * Math_PI) / Num 180) *
                Math_cos ((lat coord2 * Math_PI) / Num 180) *
                Math_sin (dLng / Num 2) *
                Math_sin (dLng / Num 2);
          c = Num 2 * Math_atan2 (Math_sqrt a) (Math_sqrt (Num 1 - a))
      in R * c)"

section \<open>Travel factor synthesizer\<close>

text \<open>
  \<open>Math.random\<close> is a global source. The values it returns, in call order, are a
  sequence \<open>rnd\<close>; the state threaded through the code is the number of values drawn so
  far. \<open>generateRouteFactors\<close> draws ten values: one for the base time, then one per
  randomised field in the order of the object literal.
\<close>

type_synonym rng = "nat \<Rightarrow> real"

definition generateRouteFactors :: "rng \<Rightarrow> nat \<Rightarrow> string \<Rightarrow> string \<Rightarrow> RouteFactors \<times> nat" where
  "generateRouteFactors rnd n from to =
     (let distance = calculateDistance from to;
          baseTime = distance * Num 3 + Num (rnd n) * Num 10
      in (\<lparr> distance = distance,
            walkingDistance = distance * Num 0.1 + Num (rnd (n + 1)) * Num 0.5,
            trafficLights = Math_floor (distance * Num 2 + Num (rnd (n + 2)) * Num 3),
            expediteRatio = Num 0.4 + Num (rnd (n + 3)) * Num 0.4,
            slowRatio = Num 0.2 + Num (rnd (n + 4)) * Num 0.3,
            congestionRatio = Num 0.1 + Num (rnd (n + 5)) * Num 0.2,
            unknownRatio = Num 0.1 + Num (rnd (n + 6)) * Num 0.1,
            duration = baseTime,
            dailySales = Math_floor (Num (rnd (n + 7)) * Num 1000) + Num 100,
            rating = Num 3.5 + Num (rnd (n + 8)) * Num 1.5,
            cost = distance * Num 15 + Num (rnd (n + 9)) * Num 50 \<rparr>,
          n + 10))"

section \<open>Desirability scorer\<close>

definition calculateDSRScore :: "RouteFactors \<Rightarrow> real \<Rightarrow> jsnum" where
  "calculateDSRScore factors prio =
     (let spatialScore =
            Num 1 -
            Math_min (distance factors / Num 10) (Num 1) * Num 0.4 -
            Math_min (walkingDistance factors / Num 2) (Num 1) * Num 0.3 -
            Math_min (trafficLights factors / Num 10) (Num 1) * Num 0.3;
          trafficScore =
            expediteRatio factors * Num 0.6 + (Num 1 - congestionRatio factors) * Num 0.4;
          serviceScore =
            Math_min (rating factors / Num 5) (Num 1) * Num 0.7 +
            Math_min (dailySales factors / Num 1000) (Num 1) * Num 0.3;
          combinedScore =
            spatialScore * Num 0.3 + trafficScore * Num 0.3 + serviceScore * Num 0.4;
          priorityWeight = Num prio / Num 5
      in combinedScore * Num 0.7 + priorityWeight * Num 0.3)"

text \<open>The scorer as the specification words it, for comparison with the code.\<close>

definition spec_spatial :: "RouteFactors \<Rightarrow> jsnum" where
  "spec_spatial f =
     Num 1 - Num 0.4 * Math_min (distance f / Num 10) (Num 1)
           - Num 0.3 * Math_min (walkingDistance f / Num 2) (Num 1)
           - Num 0.3 * Math_min (trafficLights f / Num 10) (Num 1)"

definition spec_traffic :: "RouteFactors \<Rightarrow> jsnum" where
  "spec_traffic f = Num 0.6 * expediteRatio f + Num 0.4 * (Num 1 - congestionRatio f)"

definition spec_service :: "RouteFactors \<Rightarrow> jsnum" where
  "spec_service f =
     Num 0.7 * Math_min (rating f / Num 5) (Num 1) +
     Num 0.3 * Math_min (dailySales f / Num 1000) (Num 1)"

definition spec_combined :: "RouteFactors \<Rightarrow> jsnum" where
  "spec_combined f =
     Num 0.3 * spec_spatial f + Num 0.3 * spec_traffic f + Num 0.4 * spec_service f"

definition spec_score :: "RouteFactors \<Rightarrow> real \<Rightarrow> jsnum" where
  "spec_score f p = Num 0.7 * spec_combined f + Num 0.3 * (Num p / Num 5)"

section \<open>Array sorting\<close>

text \<open>
  \<open>Array.prototype.sort\<close> with a comparator is stable, and for a consistent comparator
  its result is determined: the elements in comparator order, equal ones in their
  original order. \<open>sortBy\<close> computes that result by stable insertion.
\<close>

fun insertBy :: "('a \<Rightarrow> 'a \<Rightarrow> real) \<Rightarrow> 'a \<Rightarrow> 'a list \<Rightarrow> 'a list" where
  "insertBy cmp x [] = [x]"
| "insertBy cmp x (y # ys) = (if cmp x y \<le> 0 then x # y # ys else y # insertBy cmp x ys)"

definition sortBy :: "('a \<Rightarrow> 'a \<Rightarrow> real) \<Rightarrow> 'a list \<Rightarrow> 'a list" where
  "sortBy cmp xs = foldr (insertBy cmp) xs []"

text \<open>
  The search shuffles with \<open>sort(() => Math.random() - 0.5)\<close>. That comparator is not
  consistent, so the resulting order and the number of values drawn depend on the host's
  sorting algorithm. The shuffle is therefore a parameter: given the random sequence and
  the number of values drawn so far it returns the reordered array and the new count.
\<close>

type_synonym shuffle = "rng \<Rightarrow> nat \<Rightarrow> ScheduleItem list \<Rightarrow> ScheduleItem list \<times> nat"

section \<open>Stochastic route search\<close>

text \<open>The walk over a candidate route (the inner loop of a trial).\<close>

fun scoreLegs ::
  "rng \<Rightarrow> ScheduleItem list \<Rightarrow> jsnum \<times> jsnum \<times> jsnum \<times> string \<Rightarrow> nat
    \<Rightarrow> (jsnum \<times> jsnum \<times> jsnum \<times> string) \<times> nat" where
  "scoreLegs rnd [] acc n = (acc, n)"
| "scoreLegs rnd (item # rest) (routeScore, totalTime', totalCost, currentLocation) n =
     (let (factors, n') = generateRouteFactors rnd n currentLocation (name item);
          dsrScore = calculateDSRScore factors (priority item)
      in scoreLegs rnd rest
           (routeScore + dsrScore,
            totalTime' + (duration factors + Num (dwellTime item)),
            totalCost + cost factors,
            name item) n')"

text \<open>Score, total time and total cost of a candidate, with the final leg added.\<close>

definition evaluateRoute ::
  "rng \<Rightarrow> nat \<Rightarrow> string \<Rightarrow> string \<Rightarrow> ScheduleItem list \<Rightarrow> (jsnum \<times> jsnum \<times> jsnum) \<times> nat" where
  "evaluateRoute rnd n startLocation endLocation testRoute =
     (let ((routeScore, totalTime, totalCost, currentLocation), n1) =
            scoreLegs rnd testRoute (Num 0, Num 0, Num 0, startLocation) n;
          (finalFactors, n2) = generateRouteFactors rnd n1 currentLocation endLocation
      in ((routeScore, totalTime + duration finalFactors, totalCost + cost finalFactors), n2))"

text \<open>
  The optional budget is \<open>None\<close> when the argument is absent. The code tests it by
  truthiness, and the number 0 is not truthy.
\<close>

fun truthy :: "real option \<Rightarrow> bool" where
  "truthy None = False"
| "truthy (Some m) = (m \<noteq> 0)"

definition applyPenalty :: "real option \<Rightarrow> jsnum \<Rightarrow> jsnum \<Rightarrow> jsnum" where
  "applyPenalty maxTime routeScore totalTime' =
     (case maxTime of
        None \<Rightarrow> routeScore
      | Some m \<Rightarrow>
          if truthy maxTime \<and> Num m < totalTime'
          then routeScore - (totalTime' - Num m) * Num 0.1
          else routeScore)"

text \<open>One trial: shuffle, evaluate, penalise.\<close>

definition trial ::
  "rng \<Rightarrow> shuffle \<Rightarrow> string \<Rightarrow> string \<Rightarrow> ScheduleItem list \<Rightarrow> real option \<Rightarrow> nat
    \<Rightarrow> (ScheduleItem list \<times> jsnum) \<times> nat" where
  "trial rnd shuf startLocation endLocation currentRoute maxTime n =
     (let (testRoute, n1) = shuf rnd n currentRoute;
          ((routeScore, totalTime, totalCost), n2) =
            evaluateRoute rnd n1 startLocation endLocation testRoute
      in ((testRoute, applyPenalty maxTime routeScore totalTime), n2))"

text \<open>
  The best score starts at \<open>Number.NEGATIVE_INFINITY\<close> and is afterwards only ever
  assigned a route score that compared greater, hence a number.
\<close>

datatype best = NEGATIVE_INFINITY | Best real

fun exceeds :: "jsnum \<Rightarrow> best \<Rightarrow> bool" where
  "exceeds (Num x) NEGATIVE_INFINITY = True"
| "exceeds (Num x) (Best b) = (b < x)"
| "exceeds NaN b = False"

fun asBest :: "jsnum \<Rightarrow> best \<Rightarrow> best" where
  "asBest (Num x) b = Best x"
| "asBest NaN b = b"

definition iterations :: nat where
  "iterations = 100"

function searchLoop ::
  "rng \<Rightarrow> shuffle \<Rightarrow> string \<Rightarrow> string \<Rightarrow> ScheduleItem list \<Rightarrow> real option
    \<Rightarrow> nat \<Rightarrow> ScheduleItem list \<times> best \<Rightarrow> nat \<Rightarrow> (ScheduleItem list \<times> best) \<times> nat" where
  "searchLoop rnd shuf startLocation endLocation currentRoute maxTime i (bestRoute, bestScore) n =
     (if i < iterations then
        (let ((testRoute, routeScore), n') =
               trial rnd shuf startLocation endLocation currentRoute maxTime n
         in if exceeds routeScore bestScore
            then searchLoop rnd shuf startLocation endLocation currentRoute maxTime (i + 1)
                   (testRoute, asBest routeScore bestScore) n'
            else searchLoop rnd shuf startLocation endLocation currentRoute maxTime (i + 1)
                   (bestRoute, bestScore) n')
      else ((bestRoute, bestScore), n))"
  by pat_completeness auto
termination
  by (relation "measure (\<lambda>(rnd, shuf, s, e, r, m, i, b, n). iterations - i)") auto

declare searchLoop.simps [simp del]

section \<open>Time-budget pruner\<close>

fun pruneLoop ::
  "rng \<Rightarrow> real \<Rightarrow> ScheduleItem list
    \<Rightarrow> jsnum \<times> string \<times> ScheduleItem list \<times> ScheduleItem list \<Rightarrow> nat
    \<Rightarrow> (jsnum \<times> string \<times> ScheduleItem list \<times> ScheduleItem list) \<times> nat" where
  "pruneLoop rnd maxTime [] st n = (st, n)"
| "pruneLoop rnd maxTime (item # rest) (currentTime, currentLocation, validRoute, droppedPOIs') n =
     (let (factors, n') = generateRouteFactors rnd n currentLocation (name item);
          itemTime = duration factors + Num (dwellTime item)
      in if currentTime + itemTime \<le> Num maxTime * Num 0.9
         then pruneLoop rnd maxTime rest
                (currentTime + itemTime, name item, validRoute @ [item], droppedPOIs') n'
         else pruneLoop rnd maxTime rest
                (currentTime, currentLocation, validRoute, droppedPOIs' @ [item]) n')"

text \<open>
  The pruning block: it yields the optimized route and the dropped list. Without a
  truthy budget the best route is kept whole and nothing is dropped.
\<close>

definition prune ::
  "rng \<Rightarrow> string \<Rightarrow> ScheduleItem list \<Rightarrow> real option \<Rightarrow> nat
    \<Rightarrow> (ScheduleItem list \<times> ScheduleItem list) \<times> nat" where
  "prune rnd startLocation bestRoute maxTime n =
     (let optimizedRoute = bestRoute
      in case maxTime of
           None \<Rightarrow> ((optimizedRoute, []), n)
         | Some m \<Rightarrow>
             if truthy maxTime then
               (let sortedByPriority = sortBy (\<lambda>a b. priority b - priority a) optimizedRoute;
                    ((currentTime, currentLocation, validRoute, droppedPOIs), n') =
                      pruneLoop rnd m sortedByPriority (Num 0, startLocation, [], []) n
                in ((validRoute, droppedPOIs), n'))
             else ((optimizedRoute, []), n))"

section \<open>Metrics aggregator\<close>

fun distanceLoop :: "ScheduleItem list \<Rightarrow> jsnum \<times> string \<Rightarrow> jsnum \<times> string" where
  "distanceLoop [] acc = acc"
| "distanceLoop (item # rest) (totalDistance', currentLocation) =
     distanceLoop rest
       (totalDistance' + calculateDistance currentLocation (name item), name item)"

definition calculateTotalDistance :: "string \<Rightarrow> string \<Rightarrow> ScheduleItem list \<Rightarrow> jsnum" where
  "calculateTotalDistance startLocation endLocation route =
     (let (totalDistance, currentLocation) = distanceLoop route (Num 0, startLocation)
      in totalDistance + calculateDistance currentLocation endLocation)"

fun timeLoop ::
  "rng \<Rightarrow> ScheduleItem list \<Rightarrow> jsnum \<times> string \<Rightarrow> nat \<Rightarrow> (jsnum \<times> string) \<times> nat" where
  "timeLoop rnd [] acc n = (acc, n)"
| "timeLoop rnd (item # rest) (totalTime', currentLocation) n =
     (let (factors, n') = generateRouteFactors rnd n currentLocation (name item)
      in timeLoop rnd rest
           (totalTime' + (duration factors + Num (dwellTime item)), name item) n')"

definition calculateTotalTime ::
  "rng \<Rightarrow> nat \<Rightarrow> string \<Rightarrow> string \<Rightarrow> ScheduleItem list \<Rightarrow> jsnum \<times> nat" where
  "calculateTotalTime rnd n startLocation endLocation route =
     (let ((totalTime, currentLocation), n1) = timeLoop rnd route (Num 0, startLocation) n;
          (finalFactors, n2) = generateRouteFactors rnd n1 currentLocation endLocation
      in (totalTime + duration finalFactors, n2))"

section \<open>The local engine\<close>

text \<open>
  \<open>localeCompare\<close> is the host's string collation, a parameter as well. The search and
  the pruning block together yield the optimized route and the dropped list.
\<close>

definition searchAndPrune ::
  "rng \<Rightarrow> shuffle \<Rightarrow> string \<Rightarrow> string \<Rightarrow> ScheduleItem list \<Rightarrow> real option \<Rightarrow> nat
    \<Rightarrow> (ScheduleItem list \<times> ScheduleItem list) \<times> nat" where
  "searchAndPrune rnd shuf startLocation endLocation scheduleItems maxTime n =
     (let currentRoute = scheduleItems;
          ((bestRoute, bestScore), n1) =
            searchLoop rnd shuf startLocation endLocation currentRoute maxTime 0
              (scheduleItems, NEGATIVE_INFINITY) n
      in prune rnd startLocation bestRoute maxTime n1)"

definition alternativeOrder ::
  "(string \<Rightarrow> string \<Rightarrow> real) \<Rightarrow> ScheduleItem \<Rightarrow> ScheduleItem \<Rightarrow> real" where
  "alternativeOrder localeCompare a b =
     (if type a = type b then priority b - priority a
      else localeCompare (type a) (type b))"

definition optimizeRouteRL ::
  "rng \<Rightarrow> shuffle \<Rightarrow> (string \<Rightarrow> string \<Rightarrow> real) \<Rightarrow> string \<Rightarrow> string
    \<Rightarrow> ScheduleItem list \<Rightarrow> real option \<Rightarrow> nat \<Rightarrow> OptimizationResult \<times> nat" where
  "optimizeRouteRL rnd shuf localeCompare startLocation endLocation scheduleItems maxTime n =
     (let userPlan = scheduleItems;
          ((optimizedRoute, droppedPOIs), n2) =
            searchAndPrune rnd shuf startLocation endLocation scheduleItems maxTime n;
          alternativeRoute = sortBy (alternativeOrder localeCompare) scheduleItems;
          originalDistance = calculateTotalDistance startLocation endLocation userPlan;
          optimizedDistance = calculateTotalDistance startLocation endLocation optimizedRoute;
          (originalTime, n3) = calculateTotalTime rnd n2 startLocation endLocation userPlan;
          (optimizedTime, n4) = calculateTotalTime rnd n3 startLocation endLocation optimizedRoute
      in (\<lparr> originalRoute = userPlan,
            optimizedRoute = optimizedRoute,
            userPlan = userPlan,
            alternativePlan =
              (if length alternativeRoute \<noteq> length optimizedRoute
               then Some alternativeRoute else None),
            metrics =
              \<lparr> totalDistance = optimizedDistance,
                totalTime = optimizedTime,
                timeSaved = Math_max (Num 0) (originalTime - optimizedTime),
                costSaved = Math_max (Num 0) ((originalDistance - optimizedDistance) * Num 15),
                droppedPOIs = droppedPOIs \<rparr> \<rparr>,
          n4))"

section \<open>The trials of a search\<close>

text \<open>
  The results of \<open>k\<close> successive trials from a given state of the random source, and the
  comparison the loop makes after each: these restate the loop body, to say what the loop
  returns.
\<close>

fun trialsFrom ::
  "rng \<Rightarrow> shuffle \<Rightarrow> string \<Rightarrow> string \<Rightarrow> ScheduleItem list \<Rightarrow> real option \<Rightarrow> nat \<Rightarrow> nat
    \<Rightarrow> (ScheduleItem list \<times> jsnum) list \<times> nat" where
  "trialsFrom rnd shuf s e items maxTime 0 n = ([], n)"
| "trialsFrom rnd shuf s e items maxTime (Suc k) n =
     (let (t, n') = trial rnd shuf s e items maxTime n;
          (ts, n'') = trialsFrom rnd shuf s e items maxTime k n'
      in (t # ts, n''))"

fun keepBetter ::
  "ScheduleItem list \<times> best \<Rightarrow> ScheduleItem list \<times> jsnum \<Rightarrow> ScheduleItem list \<times> best" where
  "keepBetter (bestRoute, bestScore) (testRoute, routeScore) =
     (if exceeds routeScore bestScore then (testRoute, asBest routeScore bestScore)
      else (bestRoute, bestScore))"

section \<open>Assumptions on the host, and a sample host\<close>

text \<open>Whatever the comparator, sorting returns a permutation of the array.\<close>

definition permuting :: "shuffle \<Rightarrow> bool" where
  "permuting shuf \<longleftrightarrow> (\<forall>rnd n xs. mset (fst (shuf rnd n xs)) = mset xs)"

text \<open>
  A sample shuffle: straight insertion sort, as engines use on short arrays, with the
  comparator \<open>Math.random() - 0.5\<close> drawing one value per comparison. The sorted prefix
  is kept in reverse, so that its last element comes first.
\<close>

fun insertRandom ::
  "rng \<Rightarrow> nat \<Rightarrow> ScheduleItem \<Rightarrow> ScheduleItem list \<Rightarrow> ScheduleItem list \<times> nat" where
  "insertRandom rnd n element [] = ([element], n)"
| "insertRandom rnd n element (tmp # before) =
     (if 0 < rnd n - 0.5
      then (let (r, n') = insertRandom rnd (n + 1) element before in (tmp # r, n'))
      else (element # tmp # before, n + 1))"

fun insertionLoop ::
  "rng \<Rightarrow> nat \<Rightarrow> ScheduleItem list \<Rightarrow> ScheduleItem list \<Rightarrow> ScheduleItem list \<times> nat" where
  "insertionLoop rnd n sortedRev [] = (rev sortedRev, n)"
| "insertionLoop rnd n sortedRev (element # rest) =
     (let (sortedRev', n') = insertRandom rnd n element sortedRev
      in insertionLoop rnd n' sortedRev' rest)"

definition sampleShuffle :: shuffle where
  "sampleShuffle rnd n xs = insertionLoop rnd n [] xs"

text \<open>Sample values of \<open>Math.random\<close>, all in \<open>[0, 1)\<close>, and a sample collation.\<close>

definition sampleDraws :: rng where
  "sampleDraws k = real (k mod 16) / 16"

definition stepDraws :: rng where
  "stepDraws k = (if k < 1000 then 1 / 2 else 3 / 4)"

definition sampleCompare :: "string \<Rightarrow> string \<Rightarrow> real" where
  "sampleCompare a b = (if a = b then 0 else if length a < length b then - 1 else 1)"

text \<open>The destinations of the specification's scenario.\<close>

definition itemA :: ScheduleItem where
  "itemA = \<lparr> id_field = ''1'', name = ''A'', type = ''errand'', priority = 5, dwellTime = 60,
             targetArrival = None, notes_field = None \<rparr>"

definition itemB :: ScheduleItem where
  "itemB = \<lparr> id_field = ''2'', name = ''B'', type = ''errand'', priority = 2, dwellTime = 30,
             targetArrival = None, notes_field = None \<rparr>"

section \<open>Notions used in the properties\<close>

text \<open>
  No destination is admissible from the start: whatever value the random source yields for
  it, the leg from the start plus the dwell time exceeds 0.9 times the budget.
\<close>

definition noneAdmissible :: "rng \<Rightarrow> string \<Rightarrow> ScheduleItem list \<Rightarrow> real \<Rightarrow> bool" where
  "noneAdmissible rnd startLocation items m \<longleftrightarrow>
     (\<forall>item \<in> set items. \<forall>k.
        Num m * Num 0.9 <
          duration (fst (generateRouteFactors rnd k startLocation (name item))) + Num (dwellTime item))"

section \<open>Properties\<close>

lemma jsnum_mult_commute: "(a :: jsnum) * b = b * a"
  by (cases a; cases b) simp_all

text \<open>
  C5. For every Travel Factors record and every priority, \<open>calculateDSRScore\<close> returns
  \<open>0.7\<cdot>combined + 0.3\<cdot>(priority/5)\<close> with the combined, spatial, traffic and service
  sub-scores of the specification. The scorer takes no random state: its value is a
  function of the record and the priority alone.
\<close>

theorem calculateDSRScore_spec:
  "calculateDSRScore factors p = spec_score factors p"
  unfolding calculateDSRScore_def spec_score_def spec_combined_def spec_spatial_def
    spec_traffic_def spec_service_def Let_def
  by (simp only: jsnum_mult_commute [of "Num c" for c])

subsection \<open>Distances\<close>

lemma mockCoordinates_Home: "mockCoordinates ''Home'' = Some (Coordinate 12.9716 77.5946)"
  by (simp add: mockCoordinates_def ownCoordinates_def)

lemma mockCoordinates_unknown:
  "map_of ownCoordinates p = None \<Longrightarrow> p \<notin> set objectPrototypeKeys \<Longrightarrow> mockCoordinates p = None"
  by (simp add: mockCoordinates_def)

lemma calculateDistance_same_coordinate:
  assumes "orElse (mockCoordinates p) (Coordinate 12.9716 77.5946) = Coordinate a b"
    and "orElse (mockCoordinates q) (Coordinate 12.9716 77.5946) = Coordinate a b"
  shows "calculateDistance p q = Num 0"
  using assms by (simp add: calculateDistance_def Let_def Math_PI_def atan2_def)

lemma calculateDistance_Home_Home: "calculateDistance ''Home'' ''Home'' = Num 0"
  by (simp add: calculateDistance_def Let_def mockCoordinates_Home Math_PI_def atan2_def)

text \<open>
  What does hold of the fallback: a name that is neither one of the ten own keys nor a
  member of \<open>Object.prototype\<close> gets the coordinate of \<open>Home\<close>, and the distance between
  two such names, or between one and \<open>Home\<close>, is 0.
\<close>

lemma calculateDistance_fallback:
  assumes "map_of ownCoordinates p = None" "p \<notin> set objectPrototypeKeys"
    and "q = ''Home'' \<or> (map_of ownCoordinates q = None \<and> q \<notin> set objectPrototypeKeys)"
  shows "calculateDistance p q = Num 0" "calculateDistance q p = Num 0"
proof -
  have p: "orElse (mockCoordinates p) (Coordinate 12.9716 77.5946) = Coordinate 12.9716 77.5946"
    using assms(1,2) by (simp add: mockCoordinates_unknown)
  have q: "orElse (mockCoordinates q) (Coordinate 12.9716 77.5946) = Coordinate 12.9716 77.5946"
    using assms(3) by (auto simp: mockCoordinates_unknown mockCoordinates_Home)
  show "calculateDistance p q = Num 0"
    using p q by (rule calculateDistance_same_coordinate)
  show "calculateDistance q p = Num 0"
    using q p by (rule calculateDistance_same_coordinate)
qed

text \<open>
  C10. The claim: every name outside the ten-entry table gets the fallback coordinate, so
  the distance between two unknown names, or an unknown name and \<open>Home\<close>, is 0. The
  code reads the table with a plain property access, which also finds the members of
  \<open>Object.prototype\<close>: the name \<open>constructor\<close> is not in the table, is not given the
  fallback, and its distance to \<open>Home\<close> and to the unknown name \<open>toString\<close> is \<open>NaN\<close>.
\<close>

theorem calculateDistance_inherited_name:
  "map_of ownCoordinates ''constructor'' = None \<and>
   map_of ownCoordinates ''toString'' = None \<and>
   orElse (mockCoordinates ''constructor'') (Coordinate 12.9716 77.5946) = PrototypeMember \<and>
   calculateDistance ''constructor'' ''Home'' = NaN \<and>
   calculateDistance ''constructor'' ''toString'' = NaN"
  by (simp add: calculateDistance_def Let_def mockCoordinates_def ownCoordinates_def
      objectPrototypeKeys_def)

subsection \<open>The search loop as a fold over its trials\<close>

lemma generateRouteFactors_snd [simp]: "snd (generateRouteFactors rnd n a b) = n + 10"
  by (simp add: generateRouteFactors_def Let_def)

lemma generateRouteFactors_duration:
  "duration (fst (generateRouteFactors rnd n a b)) =
     calculateDistance a b * Num 3 + Num (rnd n) * Num 10"
  by (simp add: generateRouteFactors_def Let_def)

lemma length_trialsFrom [simp]:
  "length (fst (trialsFrom rnd shuf s e items maxTime k n)) = k"
  by (induction k arbitrary: n) (simp_all add: split_def Let_def)

lemma searchLoop_trials:
  "iterations - i = k \<Longrightarrow> i \<le> iterations \<Longrightarrow>
   searchLoop rnd shuf s e items maxTime i b n =
     (foldl keepBetter b (fst (trialsFrom rnd shuf s e items maxTime k n)),
      snd (trialsFrom rnd shuf s e items maxTime k n))"
proof (induction k arbitrary: i b n)
  case 0
  then have "\<not> i < iterations" by simp
  then show ?case
    by (cases b) (simp add: searchLoop.simps)
next
  case (Suc k)
  then have lt: "i < iterations" and k: "iterations - Suc i = k" and le: "Suc i \<le> iterations"
    by simp_all
  obtain br bs where b: "b = (br, bs)" by (cases b)
  obtain t sc n' where t: "trial rnd shuf s e items maxTime n = ((t, sc), n')"
    by (metis surj_pair)
  show ?case
    unfolding b
    apply (subst searchLoop.simps)
    apply (simp add: lt t Suc.IH [OF k le] split_def Let_def)
    done
qed

lemma exceeds_Num_iff: "exceeds s b \<longleftrightarrow> (\<exists>x. s = Num x \<and> (case b of NEGATIVE_INFINITY \<Rightarrow> True | Best y \<Rightarrow> y < x))"
  by (cases s; cases b) simp_all

lemma not_exceeds_Best: "\<not> exceeds s (Best x) \<longleftrightarrow> \<not> Num x < s"
  by (cases s) auto

lemma exceeds_trans: "exceeds (Num y) b \<Longrightarrow> \<not> exceeds s b \<Longrightarrow> \<not> Num y \<le> s"
  by (cases s; cases b) auto

lemma exceeds_Best_le: "exceeds (Num y) (Best x) \<Longrightarrow> \<not> Num x < s \<Longrightarrow> \<not> Num y \<le> s"
  by (cases s) auto

lemma not_le_not_less: "\<not> Num y \<le> s \<Longrightarrow> \<not> Num y < s"
  by (cases s) auto

lemma exceeds_mono: "exceeds (Num y) (Best x) \<Longrightarrow> exceeds (Num x) b \<Longrightarrow> exceeds (Num y) b"
  by (cases b) auto

lemma foldl_keepBetter:
  fixes ts :: "(ScheduleItem list \<times> jsnum) list"
  shows "(foldl keepBetter (r0, b0) ts = (r0, b0) \<and> (\<forall>j<length ts. \<not> exceeds (snd (ts ! j)) b0)) \<or>
     (\<exists>i x. i < length ts \<and> foldl keepBetter (r0, b0) ts = (fst (ts ! i), Best x) \<and>
        snd (ts ! i) = Num x \<and> exceeds (Num x) b0 \<and>
        (\<forall>j<length ts. \<not> Num x < snd (ts ! j)) \<and> (\<forall>j<i. \<not> Num x \<le> snd (ts ! j)))"
proof (induction ts rule: rev_induct)
  case Nil
  then show ?case by simp
next
  case (snoc t ts)
  obtain r sc where t: "t = (r, sc)" by (cases t)
  from snoc show ?case
  proof (elim disjE conjE exE)
    assume keep: "foldl keepBetter (r0, b0) ts = (r0, b0)"
      and none: "\<forall>j<length ts. \<not> exceeds (snd (ts ! j)) b0"
    show ?thesis
    proof (cases "exceeds sc b0")
      case False
      with keep none have "foldl keepBetter (r0, b0) (ts @ [t]) = (r0, b0) \<and>
          (\<forall>j<length (ts @ [t]). \<not> exceeds (snd ((ts @ [t]) ! j)) b0)"
        by (auto simp: t nth_append less_Suc_eq)
      then show ?thesis by blast
    next
      case True
      then obtain y where y: "sc = Num y" by (auto simp: exceeds_Num_iff)
      have "length ts < length (ts @ [t])" by simp
      moreover have "foldl keepBetter (r0, b0) (ts @ [t]) = (fst ((ts @ [t]) ! length ts), Best y)"
        using True keep by (simp add: t y)
      moreover have "snd ((ts @ [t]) ! length ts) = Num y" by (simp add: t y)
      moreover have "exceeds (Num y) b0" using True y by simp
      moreover have "\<forall>j<length ts. \<not> Num y \<le> snd ((ts @ [t]) ! j)"
      proof (intro allI impI)
        fix j assume j: "j < length ts"
        with none have "\<not> exceeds (snd (ts ! j)) b0" by simp
        with True [unfolded y] have "\<not> Num y \<le> snd (ts ! j)" by (rule exceeds_trans)
        then show "\<not> Num y \<le> snd ((ts @ [t]) ! j)" using j by (simp add: nth_append)
      qed
      moreover from this have "\<forall>j<length (ts @ [t]). \<not> Num y < snd ((ts @ [t]) ! j)"
        by (auto simp: less_Suc_eq t y dest: not_le_not_less)
      ultimately show ?thesis by blast
    qed
  next
    fix i x
    assume i: "i < length ts"
      and best: "foldl keepBetter (r0, b0) ts = (fst (ts ! i), Best x)"
      and sc_i: "snd (ts ! i) = Num x" and ex: "exceeds (Num x) b0"
      and top: "\<forall>j<length ts. \<not> Num x < snd (ts ! j)"
      and first: "\<forall>j<i. \<not> Num x \<le> snd (ts ! j)"
    show ?thesis
    proof (cases "exceeds sc (Best x)")
      case False
      then have "\<not> Num x < sc" by (simp add: not_exceeds_Best)
      with i best sc_i ex top first
      have "i < length (ts @ [t]) \<and>
        foldl keepBetter (r0, b0) (ts @ [t]) = (fst ((ts @ [t]) ! i), Best x) \<and>
        snd ((ts @ [t]) ! i) = Num x \<and> exceeds (Num x) b0 \<and>
        (\<forall>j<length (ts @ [t]). \<not> Num x < snd ((ts @ [t]) ! j)) \<and>
        (\<forall>j<i. \<not> Num x \<le> snd ((ts @ [t]) ! j))"
        using False by (auto simp: t nth_append less_Suc_eq)
      then show ?thesis by blast
    next
      case True
      then obtain y where y: "sc = Num y" by (auto simp: exceeds_Num_iff)
      have "length ts < length (ts @ [t])" by simp
      moreover have "foldl keepBetter (r0, b0) (ts @ [t]) = (fst ((ts @ [t]) ! length ts), Best y)"
        using True best by (simp add: t y)
      moreover have "snd ((ts @ [t]) ! length ts) = Num y" by (simp add: t y)
      moreover have "exceeds (Num y) b0" using True ex unfolding y by (rule exceeds_mono)
      moreover have "\<forall>j<length ts. \<not> Num y \<le> snd ((ts @ [t]) ! j)"
      proof (intro allI impI)
        fix j assume j: "j < length ts"
        with top have "\<not> Num x < snd (ts ! j)" by simp
        with True [unfolded y] have "\<not> Num y \<le> snd (ts ! j)" by (rule exceeds_Best_le)
        then show "\<not> Num y \<le> snd ((ts @ [t]) ! j)" using j by (simp add: nth_append)
      qed
      moreover from this have "\<forall>j<length (ts @ [t]). \<not> Num y < snd ((ts @ [t]) ! j)"
        by (auto simp: less_Suc_eq t y dest: not_le_not_less)
      ultimately show ?thesis by blast
    qed
  qed
qed

subsection \<open>Permutations\<close>

lemma mset_insertRandom: "mset (fst (insertRandom rnd n x ys)) = add_mset x (mset ys)"
  by (induction ys arbitrary: n) (simp_all add: split_def Let_def)

lemma mset_insertionLoop: "mset (fst (insertionLoop rnd n acc xs)) = mset acc + mset xs"
  by (induction xs arbitrary: n acc) (simp_all add: split_def Let_def mset_insertRandom)

lemma permuting_sampleShuffle: "permuting sampleShuffle"
  by (simp add: permuting_def sampleShuffle_def mset_insertionLoop)

lemma trial_route:
  "fst (fst (trial rnd shuf s e items maxTime n)) = fst (shuf rnd n items)"
  by (simp add: trial_def split_def Let_def)

lemma trialsFrom_routes:
  "permuting shuf \<Longrightarrow> t \<in> set (fst (trialsFrom rnd shuf s e items maxTime k n)) \<Longrightarrow> mset (fst t) = mset items"
  by (induction k arbitrary: n) (auto simp: split_def Let_def trial_route permuting_def)

lemma foldl_keepBetter_route:
  "fst (foldl keepBetter b ts) = fst b \<or> fst (foldl keepBetter b ts) \<in> fst ` set ts"
proof (induction ts rule: rev_induct)
  case Nil
  then show ?case by simp
next
  case (snoc t ts)
  obtain br bs where f: "foldl keepBetter b ts = (br, bs)" by (cases "foldl keepBetter b ts")
  obtain r sc where t: "t = (r, sc)" by (cases t)
  from snoc show ?case by (auto simp: f t)
qed

lemma searchLoop_route_perm:
  assumes "permuting shuf"
  shows "mset (fst (fst (searchLoop rnd shuf s e items maxTime 0 (items, NEGATIVE_INFINITY) n))) = mset items"
proof -
  let ?ts = "fst (trialsFrom rnd shuf s e items maxTime iterations n)"
  have "fst (searchLoop rnd shuf s e items maxTime 0 (items, NEGATIVE_INFINITY) n) =
      foldl keepBetter (items, NEGATIVE_INFINITY) ?ts"
    by (simp add: searchLoop_trials [where k = iterations])
  moreover have "fst (foldl keepBetter (items, NEGATIVE_INFINITY) ?ts) = items \<or>
      fst (foldl keepBetter (items, NEGATIVE_INFINITY) ?ts) \<in> fst ` set ?ts"
    using foldl_keepBetter_route [of "(items, NEGATIVE_INFINITY)" ?ts] by simp
  ultimately show ?thesis
    using trialsFrom_routes [OF assms] by auto
qed

lemma mset_insertBy: "mset (insertBy cmp x ys) = add_mset x (mset ys)"
  by (induction ys) simp_all

lemma mset_sortBy: "mset (sortBy cmp xs) = mset xs"
  by (induction xs) (simp_all add: sortBy_def mset_insertBy)

lemma length_sortBy: "length (sortBy cmp xs) = length xs"
  using mset_sortBy [of cmp xs] by (metis size_mset)

lemma pruneLoop_partition:
  "pruneLoop rnd m xs (t, loc, valid, dropped) n = ((t', loc', valid', dropped'), n') \<Longrightarrow>
   mset valid' + mset dropped' = mset valid + mset dropped + mset xs"
  by (induction xs arbitrary: t loc valid dropped n)
     (auto simp: split_def Let_def split: if_splits)

lemma prune_partition:
  "mset (fst (fst (prune rnd s best maxTime n))) + mset (snd (fst (prune rnd s best maxTime n))) = mset best"
proof (cases "truthy maxTime")
  case False
  then show ?thesis by (cases maxTime) (simp_all add: prune_def)
next
  case True
  then obtain m where m: "maxTime = Some m" by (cases maxTime) auto
  let ?sorted = "sortBy (\<lambda>a b. priority b - priority a) best"
  obtain t loc valid dropped n' where
    p: "pruneLoop rnd m ?sorted (Num 0, s, [], []) n = ((t, loc, valid, dropped), n')"
    by (metis surj_pair)
  from pruneLoop_partition [OF p] have "mset valid + mset dropped = mset best"
    by (simp add: mset_sortBy)
  with True p show ?thesis by (simp add: prune_def m)
qed

lemma optimizedRoute_engine:
  "optimizedRoute (fst (optimizeRouteRL rnd shuf lc s e items maxTime n)) =
     fst (fst (searchAndPrune rnd shuf s e items maxTime n))"
  by (simp add: optimizeRouteRL_def split_def Let_def)

lemma droppedPOIs_engine:
  "droppedPOIs (metrics (fst (optimizeRouteRL rnd shuf lc s e items maxTime n))) =
     snd (fst (searchAndPrune rnd shuf s e items maxTime n))"
  by (simp add: optimizeRouteRL_def split_def Let_def)

lemma searchAndPrune_partition:
  assumes "permuting shuf"
  shows "mset (fst (fst (searchAndPrune rnd shuf s e items maxTime n))) +
         mset (snd (fst (searchAndPrune rnd shuf s e items maxTime n))) = mset items"
  using prune_partition searchLoop_route_perm [OF assms]
  by (simp add: searchAndPrune_def split_def Let_def)

text \<open>
  C2. With a time budget supplied, the optimized sequence and the dropped list together
  hold every input destination exactly once: as multisets, their union is the input.
  (The host's sort is assumed to return a permutation of its array.)
\<close>

theorem optimized_dropped_partition:
  assumes "permuting shuf"
  shows "mset (optimizedRoute (fst (optimizeRouteRL rnd shuf lc s e items (Some m) n))) +
         mset (droppedPOIs (metrics (fst (optimizeRouteRL rnd shuf lc s e items (Some m) n)))) =
         mset items"
  using searchAndPrune_partition [OF assms]
  by (simp add: optimizedRoute_engine droppedPOIs_engine)

theorem optimized_dropped_partition_witness:
  "permuting sampleShuffle \<and>
   mset (optimizedRoute
          (fst (optimizeRouteRL sampleDraws sampleShuffle sampleCompare ''S'' ''E''
                 [itemA, itemB] (Some 100) 0))) +
   mset (droppedPOIs (metrics
          (fst (optimizeRouteRL sampleDraws sampleShuffle sampleCompare ''S'' ''E''
                 [itemA, itemB] (Some 100) 0)))) =
   mset [itemA, itemB]"
  using optimized_dropped_partition [OF permuting_sampleShuffle]
  by (simp add: permuting_sampleShuffle)

subsection \<open>Pruning when nothing fits\<close>

lemma not_le_if_less: "(a :: jsnum) < b \<Longrightarrow> \<not> Num 0 + b \<le> a"
  by (cases a; cases b) auto

lemma pruneLoop_all_dropped:
  assumes "\<forall>item \<in> set xs. \<forall>k. Num m * Num 0.9 <
          duration (fst (generateRouteFactors rnd k s (name item))) + Num (dwellTime item)"
  shows "pruneLoop rnd m xs (Num 0, s, valid, dropped) n =
           ((Num 0, s, valid, dropped @ xs), n + 10 * length xs)"
  using assms
proof (induction xs arbitrary: dropped n)
  case Nil
  then show ?case by simp
next
  case (Cons x xs)
  then have "\<not> Num 0 + (duration (fst (generateRouteFactors rnd n s (name x))) + Num (dwellTime x))
      \<le> Num m * Num 0.9"
    by (intro not_le_if_less) simp
  moreover have "pruneLoop rnd m xs (Num 0, s, valid, (dropped @ [x])) (n + 10) =
           ((Num 0, s, valid, (dropped @ [x]) @ xs), (n + 10) + 10 * length xs)"
    using Cons.prems by (intro Cons.IH) simp
  ultimately show ?case by (simp add: split_def Let_def)
qed

lemma set_sortBy: "set (sortBy cmp xs) = set xs"
  using mset_sortBy [of cmp xs] by (metis set_mset_mset)

lemma prune_all_dropped:
  assumes "m \<noteq> 0" "noneAdmissible rnd s best m"
  shows "prune rnd s best (Some m) n =
     (([], sortBy (\<lambda>a b. priority b - priority a) best), n + 10 * length best)"
proof -
  have "\<forall>item \<in> set (sortBy (\<lambda>a b. priority b - priority a) best). \<forall>k. Num m * Num 0.9 <
          duration (fst (generateRouteFactors rnd k s (name item))) + Num (dwellTime item)"
    using assms(2) by (simp add: noneAdmissible_def set_sortBy)
  from pruneLoop_all_dropped [OF this, of "[]" "[]" n] assms(1) show ?thesis
    by (simp add: prune_def length_sortBy)
qed

lemma noneAdmissible_cong: "set xs = set ys \<Longrightarrow> noneAdmissible rnd s xs m = noneAdmissible rnd s ys m"
  by (simp add: noneAdmissible_def)

lemma searchAndPrune_all_dropped:
  assumes "permuting shuf" "m \<noteq> 0" "noneAdmissible rnd s items m"
  shows "fst (fst (searchAndPrune rnd shuf s e items (Some m) n)) = []"
    and "mset (snd (fst (searchAndPrune rnd shuf s e items (Some m) n))) = mset items"
proof -
  let ?best = "fst (fst (searchLoop rnd shuf s e items (Some m) 0 (items, NEGATIVE_INFINITY) n))"
  have perm: "mset ?best = mset items" by (rule searchLoop_route_perm [OF assms(1)])
  then have "set ?best = set items" by (metis set_mset_mset)
  then have "noneAdmissible rnd s ?best m"
    using assms(3) noneAdmissible_cong by blast
  from prune_all_dropped [OF assms(2) this]
  show "fst (fst (searchAndPrune rnd shuf s e items (Some m) n)) = []"
    and "mset (snd (fst (searchAndPrune rnd shuf s e items (Some m) n))) = mset items"
    using perm by (simp_all add: searchAndPrune_def split_def Let_def mset_sortBy)
qed

text \<open>
  C9 (as amended). For every supplied budget other than 0 under which no destination is
  admissible, the engine returns an empty optimized route and a dropped list that holds
  exactly the input destinations. (The model is a total function: the engine returns on
  every input.)
\<close>

theorem nothing_admissible_all_dropped:
  assumes "permuting shuf" "m \<noteq> 0" "noneAdmissible rnd s items m"
  shows "optimizedRoute (fst (optimizeRouteRL rnd shuf lc s e items (Some m) n)) = [] \<and>
    mset (droppedPOIs (metrics (fst (optimizeRouteRL rnd shuf lc s e items (Some m) n)))) = mset items"
  using searchAndPrune_all_dropped [OF assms]
  by (simp add: optimizedRoute_engine droppedPOIs_engine)

lemma sampleDraws_nonneg: "0 \<le> sampleDraws k"
  by (simp add: sampleDraws_def)

lemma dist_S_A: "calculateDistance ''S'' ''A'' = Num 0"
  by (rule calculateDistance_fallback) (simp_all add: ownCoordinates_def objectPrototypeKeys_def)

lemma dist_S_B: "calculateDistance ''S'' ''B'' = Num 0"
  by (rule calculateDistance_fallback) (simp_all add: ownCoordinates_def objectPrototypeKeys_def)

lemma noneAdmissible_sample: "noneAdmissible sampleDraws ''S'' [itemA, itemB] 1"
  using sampleDraws_nonneg
  by (auto simp: noneAdmissible_def generateRouteFactors_duration itemA_def itemB_def dist_S_A dist_S_B
      intro: add_pos_nonneg order.strict_trans2)

lemma prune_zero: "prune rnd s best (Some 0) n = ((best, []), n)"
  by (simp add: prune_def)

lemma prune_None: "prune rnd s best None n = ((best, []), n)"
  by (simp add: prune_def)

lemma singleton_perm: "mset xs = mset [x] \<Longrightarrow> xs = [x]"
  by (metis mset_single_iff_right mset.simps(1) mset.simps(2))

lemma searchLoop_singleton:
  assumes "permuting shuf"
  shows "fst (fst (searchLoop rnd shuf s e [x] maxTime 0 ([x], NEGATIVE_INFINITY) n)) = [x]"
  using searchLoop_route_perm [OF assms, of rnd s e "[x]" maxTime n] by (rule singleton_perm)

theorem nothing_admissible_all_dropped_witness:
  "permuting sampleShuffle \<and> (1 :: real) \<noteq> 0 \<and> noneAdmissible sampleDraws ''S'' [itemA, itemB] 1 \<and>
   optimizedRoute (fst (optimizeRouteRL sampleDraws sampleShuffle sampleCompare ''S'' ''E''
       [itemA, itemB] (Some 1) 0)) = [] \<and>
   mset (droppedPOIs (metrics (fst (optimizeRouteRL sampleDraws sampleShuffle sampleCompare ''S'' ''E''
       [itemA, itemB] (Some 1) 0)))) = mset [itemA, itemB]"
  using nothing_admissible_all_dropped [OF permuting_sampleShuffle _ noneAdmissible_sample, of sampleCompare "''E''" 0]
  by (simp add: permuting_sampleShuffle noneAdmissible_sample)

lemma noneAdmissible_zero: "noneAdmissible sampleDraws ''S'' [itemA] 0"
proof -
  have "0 < sampleDraws k * 10 + 60" for k
    using sampleDraws_nonneg [of k] by linarith
  then show ?thesis
    by (simp add: noneAdmissible_def generateRouteFactors_duration itemA_def dist_S_A)
qed

text \<open>
  C9 as stated fails for the budget 0: the code tests the budget by truthiness, so the
  pruning block is skipped, although no destination fits into 0.9 times 0.
\<close>

theorem zero_budget_nothing_dropped:
  "noneAdmissible sampleDraws ''S'' [itemA] 0 \<and>
   optimizedRoute (fst (optimizeRouteRL sampleDraws sampleShuffle sampleCompare ''S'' ''E''
       [itemA] (Some 0) 0)) = [itemA] \<and>
   droppedPOIs (metrics (fst (optimizeRouteRL sampleDraws sampleShuffle sampleCompare ''S'' ''E''
       [itemA] (Some 0) 0))) = []"
  by (simp add: noneAdmissible_zero optimizedRoute_engine droppedPOIs_engine searchAndPrune_def
      split_def Let_def prune_zero searchLoop_singleton [OF permuting_sampleShuffle])

lemma alternativePlan_engine:
  "alternativePlan (fst (optimizeRouteRL rnd shuf lc s e items maxTime n)) =
     (if length items \<noteq> length (optimizedRoute (fst (optimizeRouteRL rnd shuf lc s e items maxTime n)))
      then Some (sortBy (alternativeOrder lc) items) else None)"
  by (simp add: optimizeRouteRL_def split_def Let_def length_sortBy)

text \<open>
  C6. The result holds an alternative plan only if that plan differs from the optimized
  route; a plan equal to the optimized route is left out (the field is absent). The code's
  test is on the lengths: the plan is absent exactly when nothing was dropped.
\<close>

theorem alternativePlan_only_if_different:
  assumes "r = fst (optimizeRouteRL rnd shuf lc s e items maxTime n)"
  shows "(\<forall>alt. alternativePlan r = Some alt \<longrightarrow>
            alt = sortBy (alternativeOrder lc) items \<and> alt \<noteq> optimizedRoute r) \<and>
         (sortBy (alternativeOrder lc) items = optimizedRoute r \<longrightarrow> alternativePlan r = None) \<and>
         (alternativePlan r = None \<longleftrightarrow> length (optimizedRoute r) = length items)"
  unfolding assms alternativePlan_engine
  by (auto simp: length_sortBy dest: arg_cong [where f = length])

lemma sortBy_A_B: "sortBy (alternativeOrder lc) [itemA, itemB] = [itemA, itemB]"
  by (simp add: sortBy_def alternativeOrder_def itemA_def itemB_def)

lemma sortBy_single: "sortBy cmp [x] = [x]"
  by (simp add: sortBy_def)

theorem alternativePlan_only_if_different_witness:
  "alternativePlan (fst (optimizeRouteRL sampleDraws sampleShuffle sampleCompare ''S'' ''E''
       [itemA, itemB] (Some 1) 0)) = Some [itemA, itemB] \<and>
   [itemA, itemB] \<noteq> optimizedRoute (fst (optimizeRouteRL sampleDraws sampleShuffle sampleCompare
       ''S'' ''E'' [itemA, itemB] (Some 1) 0)) \<and>
   sortBy (alternativeOrder sampleCompare) [itemA] =
     optimizedRoute (fst (optimizeRouteRL sampleDraws sampleShuffle sampleCompare ''S'' ''E''
       [itemA] None 0)) \<and>
   alternativePlan (fst (optimizeRouteRL sampleDraws sampleShuffle sampleCompare ''S'' ''E''
       [itemA] None 0)) = None"
proof -
  let ?r = "fst (optimizeRouteRL sampleDraws sampleShuffle sampleCompare ''S'' ''E''
       [itemA, itemB] (Some 1) 0)"
  let ?q = "fst (optimizeRouteRL sampleDraws sampleShuffle sampleCompare ''S'' ''E'' [itemA] None 0)"
  have empty: "optimizedRoute ?r = []"
    using searchAndPrune_all_dropped(1) [OF permuting_sampleShuffle _ noneAdmissible_sample]
    by (simp add: optimizedRoute_engine)
  then have some: "alternativePlan ?r = Some [itemA, itemB]"
    by (simp add: alternativePlan_engine sortBy_A_B)
  have same: "sortBy (alternativeOrder sampleCompare) [itemA] = optimizedRoute ?q"
    by (simp add: optimizedRoute_engine searchAndPrune_def split_def Let_def prune_None
        searchLoop_singleton [OF permuting_sampleShuffle] sortBy_single)
  from alternativePlan_only_if_different [OF refl, of sampleDraws sampleShuffle sampleCompare
      "''S''" "''E''" "[itemA, itemB]" "Some 1" 0] some
  have "[itemA, itemB] \<noteq> optimizedRoute ?r" by blast
  moreover from alternativePlan_only_if_different [OF refl, of sampleDraws sampleShuffle sampleCompare
      "''S''" "''E''" "[itemA]" None 0] same
  have "alternativePlan ?q = None" by blast
  ultimately show ?thesis using some same by blast
qed

end
